theory Spec2Isabelle
  imports Main "HOL-Library.Word" "HOL-Library.Finite_Map"
begin

section \<open>The image rotation cache of server.py\<close>

text \<open>
  The theory embeds the two request handlers of \<^verbatim>\<open>src/server.py\<close> that own the image
  cache, \<^verbatim>\<open>Handler.handle_artistart\<close> and \<^verbatim>\<open>Handler.handle_blacklist\<close>, together with
  \<^verbatim>\<open>load_blacklist\<close> and \<^verbatim>\<open>save_blacklist\<close>. The class-level dictionaries and the module-level
  blacklist are the fields of a state record that each handler takes and returns; the network
  and the file system are explicit parameters; an exception that no \<^verbatim>\<open>except\<close> clause of the
  source catches is the response \<open>Unhandled\<close>.
\<close>

subsection \<open>Python strings\<close>

text \<open>
  A \<open>string\<close> is a list of 8-bit characters: a Python \<^verbatim>\<open>str\<close> is represented by its UTF-8
  encoding, so a code point above U+007F is two to four characters here. Concatenation,
  equality and the substring test agree with Python on this representation.
  \<^verbatim>\<open>str.lower\<close> and \<^verbatim>\<open>str.strip\<close> are modelled on ASCII: \<open>lower\<close> maps A-Z to a-z and leaves
  every other character alone, \<open>strip\<close> removes the ASCII characters for which
  \<^verbatim>\<open>str.isspace\<close> holds from both ends. They agree with Python on every string whose cased
  letters and outer white space are ASCII; Python also lower-cases letters beyond ASCII
  (U+00C9 becomes U+00E9) and strips white space beyond ASCII (U+0085, U+00A0), which the
  two functions here leave in place. No property below depends on which characters \<open>lower\<close>
  changes or \<open>strip\<close> removes.
\<close>

definition lower_char :: "char \<Rightarrow> char" where
  "lower_char c =
     (case map_of (zip ''ABCDEFGHIJKLMNOPQRSTUVWXYZ'' ''abcdefghijklmnopqrstuvwxyz'') c of
        None \<Rightarrow> c
      | Some l \<Rightarrow> l)"

definition lower :: "string \<Rightarrow> string" where
  "lower s = map lower_char s"

definition isspace :: "char \<Rightarrow> bool" where
  "isspace c \<longleftrightarrow>
     c \<in> set [CHR 0x09, CHR 0x0A, CHR 0x0B, CHR 0x0C, CHR 0x0D,
               CHR 0x1C, CHR 0x1D, CHR 0x1E, CHR 0x1F, CHR 0x20]"

definition strip :: "string \<Rightarrow> string" where
  "strip s = rev (dropWhile isspace (rev (dropWhile isspace s)))"

text \<open>\<^verbatim>\<open>needle in haystack\<close> on two strings: \<open>needle\<close> occurs as a contiguous run.\<close>

fun starts_with :: "string \<Rightarrow> string \<Rightarrow> bool" where
  "starts_with [] hay = True"
| "starts_with (n # ns) [] = False"
| "starts_with (n # ns) (h # hs) = (n = h \<and> starts_with ns hs)"

fun contains :: "string \<Rightarrow> string \<Rightarrow> bool" where
  "contains needle [] = (needle = [])"
| "contains needle (h # hs) = (starts_with needle (h # hs) \<or> contains needle hs)"

text \<open>
  \<^verbatim>\<open>value.encode('latin-1', 'strict')\<close> succeeds exactly when every code point of the string is
  at most U+00FF: in UTF-8, when every character is either below 0x80 or a lead byte 0xC2 or
  0xC3 followed by one continuation byte. Otherwise it raises UnicodeEncodeError.
\<close>

definition is_ascii :: "char \<Rightarrow> bool" where
  "is_ascii c \<longleftrightarrow> \<not> digit7 c"

definition is_continuation :: "char \<Rightarrow> bool" where
  "is_continuation c \<longleftrightarrow> digit7 c \<and> \<not> digit6 c"

fun latin1_encodable :: "string \<Rightarrow> bool" where
  "latin1_encodable [] = True"
| "latin1_encodable [c] = is_ascii c"
| "latin1_encodable (c # d # cs) =
     (if is_ascii c then latin1_encodable (d # cs)
      else (c = CHR 0xC2 \<or> c = CHR 0xC3) \<and> is_continuation d \<and> latin1_encodable cs)"

subsection \<open>Parsed JSON documents\<close>

text \<open>
  What \<^verbatim>\<open>json.loads\<close> returns, for documents built from null, strings, arrays and objects.
  An object is a finite map, so two objects are equal exactly when Python's \<^verbatim>\<open>==\<close> on the two
  dictionaries holds. Numbers and booleans are left out: the handlers read no numeric or
  boolean member, and Python's comparison of them (\<^verbatim>\<open>True == 1\<close>) is not structural equality.
\<close>

datatype json = JNull | JStr string | JArr "json list" | JObj "(string, json) fmap"

datatype py_exception = KeyError | IndexError | TypeError | UnicodeEncodeError

text \<open>Truth value of an object in a condition: \<^verbatim>\<open>None\<close>, \<^verbatim>\<open>''\<close>, \<^verbatim>\<open>[]\<close> and \<^verbatim>\<open>{}\<close> are false.\<close>

fun truthy :: "json \<Rightarrow> bool" where
  "truthy JNull = False"
| "truthy (JStr s) = (s \<noteq> [])"
| "truthy (JArr xs) = (xs \<noteq> [])"
| "truthy (JObj m) = (m \<noteq> fmempty)"

text \<open>
  \<^verbatim>\<open>d.get(k)\<close>: the member, \<^verbatim>\<open>None\<close> when \<open>d\<close> is a dictionary without \<open>k\<close>; on anything
  but a dictionary the attribute lookup raises, which is the result \<open>None\<close> here.
\<close>

fun py_get :: "json \<Rightarrow> string \<Rightarrow> json option" where
  "py_get (JObj m) k = Some (case fmlookup m k of None \<Rightarrow> JNull | Some v \<Rightarrow> v)"
| "py_get _ k = None"

text \<open>\<^verbatim>\<open>d.get(k, default)\<close>.\<close>

fun py_get_default :: "json \<Rightarrow> string \<Rightarrow> json \<Rightarrow> json option" where
  "py_get_default (JObj m) k dflt = Some (case fmlookup m k of None \<Rightarrow> dflt | Some v \<Rightarrow> v)"
| "py_get_default _ k dflt = None"

text \<open>\<^verbatim>\<open>len(x)\<close>; \<^verbatim>\<open>None\<close> has no length (TypeError).\<close>

fun py_len :: "json \<Rightarrow> nat option" where
  "py_len JNull = None"
| "py_len (JStr s) = Some (length s)"
| "py_len (JArr xs) = Some (length xs)"
| "py_len (JObj m) = Some (fcard (fmdom m))"

text \<open>
  \<^verbatim>\<open>x[0]\<close>: the first element of a list, the first character of a string; IndexError on an
  empty one, KeyError on a dictionary (its keys are strings), TypeError on \<^verbatim>\<open>None\<close>.
\<close>

fun py_first :: "json \<Rightarrow> json option" where
  "py_first (JArr (x # xs)) = Some x"
| "py_first (JStr (c # cs)) = Some (JStr [c])"
| "py_first _ = None"

text \<open>\<^verbatim>\<open>a or b\<close> on two lookups that may raise: \<open>b\<close> is evaluated only when \<open>a\<close> is false.\<close>

definition py_or :: "json option \<Rightarrow> json option \<Rightarrow> json option" where
  "py_or a b = (case a of None \<Rightarrow> None | Some v \<Rightarrow> if truthy v then Some v else b)"

subsection \<open>The blacklist file\<close>

text \<open>
  The content of \<^verbatim>\<open>image_blacklist.json\<close>: missing, anything \<^verbatim>\<open>set(json.load(f))\<close> raises on,
  or a list of strings (read as a set, written from a set in no particular order).
\<close>

datatype blacklist_file = Absent | Unreadable | Stored "string set"

definition load_blacklist :: "blacklist_file \<Rightarrow> string set" where
  "load_blacklist f = (case f of Stored urls \<Rightarrow> urls | _ \<Rightarrow> {})"

text \<open>
  How a write ends: the list is written; \<^verbatim>\<open>open\<close> raises and the file stays as it was;
  \<^verbatim>\<open>open\<close> has truncated the file and \<^verbatim>\<open>json.dump\<close> raises part-way. The \<^verbatim>\<open>except\<close> clause
  swallows both failures.
\<close>

datatype write_outcome = Written | Refused | Torn

definition save_blacklist :: "write_outcome \<Rightarrow> string set \<Rightarrow> blacklist_file \<Rightarrow> blacklist_file" where
  "save_blacklist w blacklist f =
     (case w of Written \<Rightarrow> Stored blacklist | Refused \<Rightarrow> f | Torn \<Rightarrow> Unreadable)"

subsection \<open>State and responses\<close>

type_synonym bytes = "8 word list"

text \<open>A cached image is the tuple \<^verbatim>\<open>(data, content_type, url)\<close> of the source.\<close>

type_synonym image = "bytes \<times> string \<times> string"

definition url_of :: "image \<Rightarrow> string" where
  "url_of img = snd (snd img)"

record state =
  image_cache :: "string \<rightharpoonup> image list"
  image_index :: "string \<rightharpoonup> int"
  current_image_url :: "string \<rightharpoonup> string"
  IMAGE_BLACKLIST :: "string set"
  blacklist_disk :: blacklist_file

text \<open>
  What a handler hands to \<^verbatim>\<open>http.server\<close> for sending. \<open>Image\<close> is the 200 response of
  \<^verbatim>\<open>handle_artistart\<close>: body, Content-type, the two numbers of the X-Image-Index header
  \<^verbatim>\<open>position/total\<close>, X-Cache-Key. \<open>NoContent\<close> is the 204. \<open>Error\<close> is
  \<^verbatim>\<open>send_error(code, message)\<close>. The two JSON bodies of \<^verbatim>\<open>handle_blacklist\<close>, both sent with
  status 200, are \<open>Json_blacklisted url remaining\<close> and \<open>Json_error message remaining\<close>.
  \<open>Unhandled e\<close> is an exception that leaves the handler: no response is sent. For a request
  of version HTTP/0.9 \<^verbatim>\<open>http.server\<close> passes only the body on and drops status line and headers.
  Whether the client is still connected when the response is written is outside the model.
\<close>

datatype response =
    Image bytes string int int string
  | NoContent
  | Error nat string
  | Json_blacklisted string nat
  | Json_error string nat
  | Unhandled py_exception

text \<open>The module and class initialisers run at process start.\<close>

definition init_state :: "blacklist_file \<Rightarrow> state" where
  "init_state f =
     \<lparr>image_cache = Map.empty, image_index = Map.empty, current_image_url = Map.empty,
      IMAGE_BLACKLIST = load_blacklist f, blacklist_disk = f\<rparr>"

text \<open>\<^verbatim>\<open>len(Handler.image_cache.get(cache_key, []))\<close>\<close>

definition remaining :: "state \<Rightarrow> string \<Rightarrow> nat" where
  "remaining s cache_key = (case image_cache s cache_key of None \<Rightarrow> 0 | Some imgs \<Rightarrow> length imgs)"

text \<open>\<^verbatim>\<open>images[idx]\<close>: a negative index counts from the end, an index out of range raises.\<close>

definition py_index :: "'a list \<Rightarrow> int \<Rightarrow> 'a option" where
  "py_index xs i =
     (if 0 \<le> i \<and> i < int (length xs) then Some (xs ! nat i)
      else if i < 0 \<and> - int (length xs) \<le> i then Some (xs ! nat (int (length xs) + i))
      else None)"

subsection \<open>handle\_blacklist\<close>

definition handle_blacklist :: "write_outcome \<Rightarrow> string list \<Rightarrow> state \<Rightarrow> response \<times> state" where
  "handle_blacklist w args s =
     (case args of
        [] \<Rightarrow> (Error 400 ''No cache key provided'', s)
      | a # _ \<Rightarrow>
          let cache_key = lower a in
          (case current_image_url s cache_key of
             None \<Rightarrow> (Error 404 ''No current image for this key'', s)
           | Some img_url \<Rightarrow>
               if contains ''ui-avatars.com'' img_url
               then (Json_error ''Cannot blacklist placeholder'' (remaining s cache_key), s)
               else
                 let s1 = s\<lparr>IMAGE_BLACKLIST := insert img_url (IMAGE_BLACKLIST s)\<rparr>;
                     s2 = s1\<lparr>blacklist_disk :=
                                save_blacklist w (IMAGE_BLACKLIST s1) (blacklist_disk s1)\<rparr>
                 in (case image_cache s2 cache_key of
                       None \<Rightarrow> (Json_blacklisted img_url (remaining s2 cache_key), s2)
                     | Some imgs \<Rightarrow>
                         let kept = filter (\<lambda>img. url_of img \<noteq> img_url) imgs in
                         if kept = []
                         then
                           let s3 = s2\<lparr>image_cache := (image_cache s2)(cache_key := None),
                                       image_index := (image_index s2)(cache_key := None)\<rparr>
                           in (Json_blacklisted img_url (remaining s3 cache_key), s3)
                         else
                           let s3 = s2\<lparr>image_cache := (image_cache s2)(cache_key \<mapsto> kept)\<rparr> in
                           (case image_index s3 cache_key of
                              None \<Rightarrow> (Unhandled KeyError, s3)
                            | Some idx \<Rightarrow>
                                let s4 = s3\<lparr>image_index :=
                                             (image_index s3)(cache_key \<mapsto> idx mod int (length kept))\<rparr>
                                in (Json_blacklisted img_url (remaining s4 cache_key), s4)))))"

subsection \<open>The network\<close>

text \<open>
  What the outside world contributes to one artistart request. \<open>request_version\<close> is the
  protocol version of the request line, kept by \<^verbatim>\<open>http.server\<close> in \<^verbatim>\<open>self.request_version\<close>
  (\<^verbatim>\<open>HTTP/0.9\<close> for a request line without a version).
  \<open>quote\<close> is \<^verbatim>\<open>urllib.parse.quote\<close>. \<open>urlopen_json n url\<close> is what the \<open>n\<close>-th metadata
  request of a run yields: the document \<^verbatim>\<open>json.loads(resp.read().decode('utf-8'))\<close>, or \<open>None\<close>
  when \<^verbatim>\<open>urlopen\<close>, \<^verbatim>\<open>decode\<close> or \<^verbatim>\<open>json.loads\<close> raises. \<open>urlopen_image n url\<close> is what the
  \<open>n\<close>-th download of a run yields: the body and the Content-Type header if there is one, or
  \<open>None\<close> when the request raises (time-out, refused connection, a status that \<^verbatim>\<open>urlopen\<close>
  turns into HTTPError). The request number lets two requests for one URL end differently.
\<close>

record network =
  request_version :: string
  quote :: "string \<Rightarrow> string"
  urlopen_json :: "nat \<Rightarrow> string \<Rightarrow> json option"
  urlopen_image :: "nat \<Rightarrow> string \<Rightarrow> (bytes \<times> string option) option"

subsection \<open>Collecting candidate URLs\<close>

text \<open>
  Every provider block of \<^verbatim>\<open>handle_artistart\<close> is a \<^verbatim>\<open>try\<close> with a bare \<^verbatim>\<open>except: pass\<close>
  whose only effect is to append to \<^verbatim>\<open>image_urls\<close>. Each block is a function from the list so
  far to the list afterwards; an exception inside the block leaves the list as it is at that
  point. The list holds whatever the documents hold under the image keys, so it is a list of
  JSON values.
\<close>

text \<open>The first element of \<^verbatim>\<open>data[k]\<close> when \<^verbatim>\<open>data.get(k) and len(data[k]) > 0\<close> holds.\<close>

definition first_of :: "json \<Rightarrow> string \<Rightarrow> json option" where
  "first_of data k =
     (case py_get data k of
        None \<Rightarrow> None
      | Some v \<Rightarrow>
          if truthy v
          then (case py_len v of
                  None \<Rightarrow> None
                | Some n \<Rightarrow> if n > 0 then py_first v else None)
          else None)"

text \<open>Deezer album search (lines 241-250).\<close>

definition deezer_album :: "json option \<Rightarrow> json list \<Rightarrow> json list" where
  "deezer_album resp image_urls =
     (case resp of
        None \<Rightarrow> image_urls
      | Some data \<Rightarrow>
          (case first_of data ''data'' of
             None \<Rightarrow> image_urls
           | Some d \<Rightarrow>
               (case py_or (py_get d ''cover_xl'') (py_get d ''cover_big'') of
                  None \<Rightarrow> image_urls
                | Some cover \<Rightarrow> if truthy cover then image_urls @ [cover] else image_urls)))"

text \<open>TheAudioDB album search (lines 253-263): every key that is set is appended.\<close>

fun append_set_keys :: "json \<Rightarrow> string list \<Rightarrow> json list \<Rightarrow> json list" where
  "append_set_keys alb [] image_urls = image_urls"
| "append_set_keys alb (key # keys) image_urls =
     (case py_get alb key of
        None \<Rightarrow> image_urls
      | Some v \<Rightarrow> append_set_keys alb keys (if truthy v then image_urls @ [v] else image_urls))"

definition audiodb_album :: "json option \<Rightarrow> json list \<Rightarrow> json list" where
  "audiodb_album resp image_urls =
     (case resp of
        None \<Rightarrow> image_urls
      | Some data \<Rightarrow>
          (case first_of data ''album'' of
             None \<Rightarrow> image_urls
           | Some alb \<Rightarrow>
               append_set_keys alb
                 [''strAlbumThumb'', ''strAlbumThumbHQ'', ''strAlbumCDart'', ''strAlbumSpine'']
                 image_urls))"

text \<open>
  Deezer artist search (lines 277-288): the first key that is set and not yet collected is
  appended, and the loop over the keys stops there.
\<close>

fun append_first_new :: "json \<Rightarrow> string list \<Rightarrow> json list \<Rightarrow> json list" where
  "append_first_new art [] image_urls = image_urls"
| "append_first_new art (key # keys) image_urls =
     (case py_get art key of
        None \<Rightarrow> image_urls
      | Some v \<Rightarrow>
          if truthy v \<and> v \<notin> set image_urls then image_urls @ [v]
          else append_first_new art keys image_urls)"

definition deezer_artist :: "json option \<Rightarrow> json list \<Rightarrow> json list" where
  "deezer_artist resp image_urls =
     (case resp of
        None \<Rightarrow> image_urls
      | Some data \<Rightarrow>
          (case first_of data ''data'' of
             None \<Rightarrow> image_urls
           | Some art \<Rightarrow>
               append_first_new art [''picture_xl'', ''picture_big'', ''picture_medium'']
                 image_urls))"

text \<open>
  Deezer track search (lines 292-301). \<^verbatim>\<open>track.get('album', {})\<close> is looked up twice in the
  source, with the same result both times.
\<close>

definition track_cover :: "json \<Rightarrow> json option" where
  "track_cover track =
     (case py_get_default track ''album'' (JObj fmempty) of
        None \<Rightarrow> None
      | Some alb \<Rightarrow> py_or (py_get alb ''cover_xl'') (py_get alb ''cover_big''))"

fun append_covers :: "json list \<Rightarrow> json list \<Rightarrow> json list" where
  "append_covers [] image_urls = image_urls"
| "append_covers (track # tracks) image_urls =
     (case track_cover track of
        None \<Rightarrow> image_urls
      | Some album_cover \<Rightarrow>
          append_covers tracks
            (if truthy album_cover \<and> album_cover \<notin> set image_urls
             then image_urls @ [album_cover] else image_urls))"

text \<open>
  The loop runs over \<^verbatim>\<open>data.get('data', [])\<close>. Over a list it visits the elements. Over a string
  or a dictionary it visits strings, and \<^verbatim>\<open>track.get\<close> raises on the first; \<^verbatim>\<open>None\<close> is not
  iterable: in each of these cases nothing is appended.
\<close>

definition deezer_track :: "json option \<Rightarrow> json list \<Rightarrow> json list" where
  "deezer_track resp image_urls =
     (case resp of
        None \<Rightarrow> image_urls
      | Some data \<Rightarrow>
          (case py_get_default data ''data'' (JArr []) of
             Some (JArr tracks) \<Rightarrow> append_covers tracks image_urls
           | _ \<Rightarrow> image_urls))"

text \<open>TheAudioDB artist search (lines 304-316): every key that is set and new is appended.\<close>

fun append_new_keys :: "json \<Rightarrow> string list \<Rightarrow> json list \<Rightarrow> json list" where
  "append_new_keys art [] image_urls = image_urls"
| "append_new_keys art (key # keys) image_urls =
     (case py_get art key of
        None \<Rightarrow> image_urls
      | Some v \<Rightarrow>
          append_new_keys art keys
            (if truthy v \<and> v \<notin> set image_urls then image_urls @ [v] else image_urls))"

definition audiodb_artist :: "json option \<Rightarrow> json list \<Rightarrow> json list" where
  "audiodb_artist resp image_urls =
     (case resp of
        None \<Rightarrow> image_urls
      | Some data \<Rightarrow>
          (case first_of data ''artists'' of
             None \<Rightarrow> image_urls
           | Some art \<Rightarrow>
               append_new_keys art
                 [''strArtistThumb'', ''strArtistFanart'', ''strArtistFanart2'',
                  ''strArtistFanart3'', ''strArtistFanart4'', ''strArtistCutout'',
                  ''strArtistClearart'', ''strArtistWideThumb'', ''strArtistBanner'']
                 image_urls))"

text \<open>The loop over \<^verbatim>\<open>search_terms[:2]\<close>; \<open>n\<close> is the number of the next metadata request.\<close>

fun deezer_artists :: "network \<Rightarrow> nat \<Rightarrow> string list \<Rightarrow> json list \<Rightarrow> json list" where
  "deezer_artists net n [] image_urls = image_urls"
| "deezer_artists net n (term # terms) image_urls =
     deezer_artists net (Suc n) terms
       (deezer_artist
          (urlopen_json net n
             (''https://api.deezer.com/search/artist?q='' @ quote net term @ ''&limit=1''))
          image_urls)"

text \<open>Lines 235-316: the candidate list before the blacklist filter.\<close>

definition collect_urls :: "network \<Rightarrow> string \<Rightarrow> string \<Rightarrow> json list" where
  "collect_urls net artist album =
     (let is_soundtrack_search =
            (album \<noteq> [] \<and> lower album \<in> set [''soundtrack'', ''ost'', ''game'', ''movie'']);
          urls1 =
            (if album \<noteq> [] \<and> \<not> is_soundtrack_search
             then
               audiodb_album
                 (urlopen_json net 1
                    (''https://www.theaudiodb.com/api/v1/json/2/searchalbum.php?s=''
                       @ quote net artist @ ''&a='' @ quote net album))
                 (deezer_album
                    (urlopen_json net 0
                       (''https://api.deezer.com/search/album?q=''
                          @ quote net (artist @ '' '' @ album) @ ''&limit=1''))
                    [])
             else []);
          search_terms =
            [artist] @
            (if is_soundtrack_search
             then [artist @ '' soundtrack'', artist @ '' ost'', artist @ '' game'',
                   artist @ '' movie'']
             else []);
          urls2 = deezer_artists net 2 (take 2 search_terms) urls1;
          urls3 =
            (if is_soundtrack_search \<or> urls2 = []
             then
               deezer_track
                 (urlopen_json net 4
                    (''https://api.deezer.com/search/track?q='' @ quote net artist @ ''&limit=3''))
                 urls2
             else urls2)
      in audiodb_artist
           (urlopen_json net 5
              (''https://www.theaudiodb.com/api/v1/json/2/search.php?s='' @ quote net artist))
           urls3)"

text \<open>
  Line 319: \<^verbatim>\<open>[u for u in image_urls if u not in IMAGE_BLACKLIST]\<close>. The membership test hashes
  \<open>u\<close>: a list or a dictionary is unhashable and the test raises TypeError, outside every
  \<^verbatim>\<open>try\<close>. \<^verbatim>\<open>None\<close> is hashable and is no member of a set of strings.
\<close>

fun filter_blacklisted :: "string set \<Rightarrow> json list \<Rightarrow> py_exception + json list" where
  "filter_blacklisted blacklist [] = Inr []"
| "filter_blacklisted blacklist (JStr u # us) =
     (case filter_blacklisted blacklist us of
        Inl e \<Rightarrow> Inl e
      | Inr rest \<Rightarrow> Inr (if u \<notin> blacklist then JStr u # rest else rest))"
| "filter_blacklisted blacklist (JNull # us) =
     (case filter_blacklisted blacklist us of
        Inl e \<Rightarrow> Inl e
      | Inr rest \<Rightarrow> Inr (JNull # rest))"
| "filter_blacklisted blacklist (JArr xs # us) = Inl TypeError"
| "filter_blacklisted blacklist (JObj m # us) = Inl TypeError"

subsection \<open>Downloading\<close>

text \<open>
  The body of the download loop (lines 330-338) for one candidate: the record to append, or
  \<open>None\<close> when nothing is appended. \<^verbatim>\<open>Request\<close> raises ValueError on a URL that is not a
  string (\<^verbatim>\<open>str(None)\<close> has no scheme), inside the \<^verbatim>\<open>try\<close>.
\<close>

definition fetch :: "network \<Rightarrow> nat \<Rightarrow> json \<Rightarrow> image option" where
  "fetch net n u =
     (case u of
        JStr img_url \<Rightarrow>
          (case urlopen_image net n img_url of
             None \<Rightarrow> None
           | Some (img_data, header) \<Rightarrow>
               let content_type = (case header of None \<Rightarrow> ''image/jpeg'' | Some c \<Rightarrow> c) in
               if length img_data > 500 then Some (img_data, content_type, img_url) else None)
      | _ \<Rightarrow> None)"

fun download_all :: "network \<Rightarrow> nat \<Rightarrow> json list \<Rightarrow> image list" where
  "download_all net n [] = []"
| "download_all net n (u # us) =
     (case fetch net n u of None \<Rightarrow> [] | Some img \<Rightarrow> [img]) @ download_all net (Suc n) us"

subsection \<open>handle\_artistart\<close>

text \<open>
  \<^verbatim>\<open>send_header(keyword, value)\<close> of \<^verbatim>\<open>http.server\<close> does nothing for a request of version
  HTTP/0.9 and otherwise encodes the header line with \<^verbatim>\<open>encode('latin-1', 'strict')\<close>. The
  values of lines 360 and 363 are the content type and the cache key; the other two header
  values are ASCII. \<open>headers_encodable\<close> says that none of the four calls raises.
\<close>

definition headers_encodable :: "network \<Rightarrow> string \<Rightarrow> string \<Rightarrow> bool" where
  "headers_encodable net content_type cache_key \<longleftrightarrow>
     request_version net = ''HTTP/0.9'' \<or>
     (latin1_encodable content_type \<and> latin1_encodable cache_key)"

text \<open>
  Lines 347-366: serve the record under the cursor and advance the cursor. The last-served
  URL and the cursor are written (lines 353, 356) before the headers are built, so they stay
  written when \<^verbatim>\<open>send_header\<close> raises; nothing has been sent by then, because the headers
  are buffered until \<^verbatim>\<open>end_headers\<close>.
\<close>

definition serve :: "network \<Rightarrow> string \<Rightarrow> state \<Rightarrow> response \<times> state" where
  "serve net cache_key s =
     (case image_cache s cache_key of
        None \<Rightarrow> (Unhandled KeyError, s)
      | Some images \<Rightarrow>
          (case image_index s cache_key of
             None \<Rightarrow> (Unhandled KeyError, s)
           | Some idx \<Rightarrow>
               (case py_index images idx of
                  None \<Rightarrow> (Unhandled IndexError, s)
                | Some (img_data, content_type, img_url) \<Rightarrow>
                    let s' =
                      s\<lparr>current_image_url := (current_image_url s)(cache_key \<mapsto> img_url),
                        image_index :=
                          (image_index s)(cache_key \<mapsto> (idx + 1) mod int (length images))\<rparr>
                    in if headers_encodable net content_type cache_key
                       then (Image img_data content_type (idx + 1) (int (length images))
                               cache_key, s')
                       else (Unhandled UnicodeEncodeError, s'))))"

definition cache_key_of :: "string \<Rightarrow> string \<Rightarrow> string" where
  "cache_key_of artist album = lower artist @ ''|'' @ lower album"

definition handle_artistart :: "network \<Rightarrow> string list \<Rightarrow> state \<Rightarrow> response \<times> state" where
  "handle_artistart net args s =
     (case args of
        [] \<Rightarrow> (Error 400 ''No artist name provided'', s)
      | a # rest \<Rightarrow>
          let artist = strip a;
              album = (case rest of [] \<Rightarrow> [] | b # _ \<Rightarrow> strip b);
              cache_key = cache_key_of artist album
          in if cache_key \<notin> dom (image_cache s)
             then
               (case filter_blacklisted (IMAGE_BLACKLIST s) (collect_urls net artist album) of
                  Inl e \<Rightarrow> (Unhandled e, s)
                | Inr image_urls \<Rightarrow>
                    if image_urls = [] then (NoContent, s)
                    else
                      let cached_images = download_all net 0 image_urls in
                      if cached_images = [] then (Error 404 ''Could not fetch images'', s)
                      else
                        serve net cache_key
                          (s\<lparr>image_cache := (image_cache s)(cache_key \<mapsto> cached_images),
                             image_index := (image_index s)(cache_key \<mapsto> 0)\<rparr>))
             else serve net cache_key s)"

subsection \<open>Requests\<close>

text \<open>
  \<^verbatim>\<open>do_GET\<close> sends \<^verbatim>\<open>cmd=artistart\<close> to \<^verbatim>\<open>handle_artistart\<close> and \<^verbatim>\<open>cmd=blacklistimg\<close> to
  \<^verbatim>\<open>handle_blacklist\<close>, each with the list \<^verbatim>\<open>args\<close> of the query string. A request carries what
  the outside world does while it is handled: the network's answers, or how the write of the
  blacklist file ends.
\<close>

datatype request = Artistart network "string list" | Blacklistimg write_outcome "string list"

fun handle :: "request \<Rightarrow> state \<Rightarrow> response \<times> state" where
  "handle (Artistart net args) s = handle_artistart net args s"
| "handle (Blacklistimg w args) s = handle_blacklist w args s"

text \<open>The state after a sequence of requests, handled one after the other.\<close>

fun run :: "request list \<Rightarrow> state \<Rightarrow> state" where
  "run [] s = s"
| "run (r # rs) s = run rs (snd (handle r s))"

text \<open>
  The shape of the cache that both handlers keep: the same keys have an image list and a
  cursor, no list is empty, and every cursor is an index into its list.
\<close>

definition cache_inv :: "state \<Rightarrow> bool" where
  "cache_inv s \<longleftrightarrow>
     dom (image_index s) = dom (image_cache s) \<and>
     (\<forall>k imgs. image_cache s k = Some imgs \<longrightarrow>
        imgs \<noteq> [] \<and> (\<exists>idx. image_index s k = Some idx \<and> 0 \<le> idx \<and> idx < int (length imgs)))"

text \<open>The key \<^verbatim>\<open>handle_artistart\<close> computes from its arguments (lines 227-231).\<close>

definition key_of_args :: "string list \<Rightarrow> string" where
  "key_of_args args =
     (case args of
        [] \<Rightarrow> []
      | a # rest \<Rightarrow> cache_key_of (strip a) (case rest of [] \<Rightarrow> [] | b # _ \<Rightarrow> strip b))"

text \<open>
  The records of the key's image list that a blacklisting of \<open>u\<close> keeps: those whose URL is
  not \<open>u\<close> (none when the key has no list).
\<close>

definition kept_after :: "state \<Rightarrow> string \<Rightarrow> string \<Rightarrow> image list" where
  "kept_after s k u =
     filter (\<lambda>img. url_of img \<noteq> u) (case image_cache s k of None \<Rightarrow> [] | Some imgs \<Rightarrow> imgs)"

text \<open>No key has an empty image list.\<close>

definition nonempty_sets :: "state \<Rightarrow> bool" where
  "nonempty_sets s \<longleftrightarrow> (\<forall>k imgs. image_cache s k = Some imgs \<longrightarrow> imgs \<noteq> [])"

text \<open>
  The response to an artistart request that comes after \<open>length nets\<close> earlier artistart
  requests with the same arguments, and the two numbers of its X-Image-Index header.
\<close>

definition nth_reply :: "network list \<Rightarrow> network \<Rightarrow> string list \<Rightarrow> state \<Rightarrow> response" where
  "nth_reply nets net args s =
     fst (handle_artistart net args (run (map (\<lambda>n. Artistart n args) nets) s))"

fun position :: "response \<Rightarrow> int option" where
  "position (Image d c p t k) = Some p"
| "position _ = None"

fun total :: "response \<Rightarrow> int option" where
  "total (Image d c p t k) = Some t"
| "total _ = None"

text \<open>
  The candidate list of a request after the blacklist filter of line 319, or the exception the
  filter raises.
\<close>

definition filtered_candidates :: "network \<Rightarrow> string list \<Rightarrow> state \<Rightarrow> py_exception + json list" where
  "filtered_candidates net args s =
     (case args of
        [] \<Rightarrow> Inr []
      | a # rest \<Rightarrow>
          filter_blacklisted (IMAGE_BLACKLIST s)
            (collect_urls net (strip a) (case rest of [] \<Rightarrow> [] | b # _ \<Rightarrow> strip b)))"

subsection \<open>Concrete inputs\<close>

text \<open>A 501-byte image, and a state that caches such images under the key \<^verbatim>\<open>x|\<close>.\<close>

definition example_image :: "string \<Rightarrow> image" where
  "example_image u = (replicate 501 0, ''image/jpeg'', u)"

definition example_state :: "string list \<Rightarrow> int \<Rightarrow> string \<Rightarrow> state" where
  "example_state urls idx u =
     \<lparr>image_cache = [''x|'' \<mapsto> map example_image urls], image_index = [''x|'' \<mapsto> idx],
      current_image_url = [''x|'' \<mapsto> u], IMAGE_BLACKLIST = {}, blacklist_disk = Absent\<rparr>"

text \<open>
  A network that answers by URL, the same way each time, for an HTTP/1.1 request. Its
  \<open>quote\<close> escapes the space and keeps every other character, as \<^verbatim>\<open>urllib.parse.quote\<close> does
  on letters, digits and spaces.
\<close>

definition fixed_network ::
  "(string \<times> json) list \<Rightarrow> (string \<times> bytes \<times> string option) list \<Rightarrow> network" where
  "fixed_network docs bodies =
     \<lparr>request_version = ''HTTP/1.1'',
      quote = (\<lambda>s. concat (map (\<lambda>c. if c = CHR '' '' then ''%20'' else [c]) s)),
      urlopen_json = (\<lambda>n url. map_of docs url),
      urlopen_image = (\<lambda>n url. map_of bodies url)\<rparr>"

text \<open>
  TheAudioDB answers the album search for artist \<^verbatim>\<open>a\<close>, album \<^verbatim>\<open>b\<close> with one album whose
  thumbnail and high-quality thumbnail are the same URL; every other metadata request fails;
  the image downloads as 501 bytes.
\<close>

definition duplicate_network :: network where
  "duplicate_network =
     fixed_network
       [(''https://www.theaudiodb.com/api/v1/json/2/searchalbum.php?s=a&a=b'',
         JObj (fmap_of_list
           [(''album'',
             JArr [JObj (fmap_of_list
                     [(''strAlbumThumb'', JStr ''http://img/1.jpg''),
                      (''strAlbumThumbHQ'', JStr ''http://img/1.jpg'')])])]))]
       [(''http://img/1.jpg'', replicate 501 0, Some ''image/png'')]"

text \<open>
  TheAudioDB answers the artist search for \<^verbatim>\<open>X\<close> with a thumbnail and a fan-art URL; every
  other metadata request fails; \<open>bodies\<close> says what downloads.
\<close>

definition artist_network :: "(string \<times> bytes \<times> string option) list \<Rightarrow> network" where
  "artist_network bodies =
     fixed_network
       [(''https://www.theaudiodb.com/api/v1/json/2/search.php?s=X'',
         JObj (fmap_of_list
           [(''artists'',
             JArr [JObj (fmap_of_list
                     [(''strArtistThumb'', JStr ''http://img/1.jpg''),
                      (''strArtistFanart'', JStr ''http://img/2.jpg'')])])]))]
       bodies"

text \<open>
  The artist name of the four Cyrillic letters U+043A U+0438 U+043D U+043E, all lower-case,
  in UTF-8. The request is sent over HTTP/1.1; \<^verbatim>\<open>urllib.parse.quote\<close> escapes each byte of the
  name; TheAudioDB answers the artist search with a thumbnail and a fan-art URL, every other
  metadata request fails, and both images download as 501 bytes of \<^verbatim>\<open>image/jpeg\<close>.
\<close>

definition kino :: string where
  "kino = [CHR 0xD0, CHR 0xBA, CHR 0xD0, CHR 0xB8, CHR 0xD0, CHR 0xBD, CHR 0xD0, CHR 0xBE]"

definition kino_network :: network where
  "kino_network =
     \<lparr>request_version = ''HTTP/1.1'',
      quote = (\<lambda>s. if s = kino then ''%D0%BA%D0%B8%D0%BD%D0%BE'' else s),
      urlopen_json =
        (\<lambda>n url.
           if url = ''https://www.theaudiodb.com/api/v1/json/2/search.php?s=%D0%BA%D0%B8%D0%BD%D0%BE''
           then Some (JObj (fmap_of_list
                  [(''artists'',
                    JArr [JObj (fmap_of_list
                            [(''strArtistThumb'', JStr ''http://img/1.jpg''),
                             (''strArtistFanart'', JStr ''http://img/2.jpg'')])])]))
           else None),
      urlopen_image =
        (\<lambda>n url.
           if url = ''http://img/1.jpg'' \<or> url = ''http://img/2.jpg''
           then Some (replicate 501 0, Some ''image/jpeg'')
           else None)\<rparr>"

text \<open>The state of a process that has cached the two images under the key of \<open>kino\<close>.\<close>

definition kino_state :: "int \<Rightarrow> string \<Rightarrow> state" where
  "kino_state idx u =
     \<lparr>image_cache =
        [kino @ ''|'' \<mapsto> [example_image ''http://img/1.jpg'', example_image ''http://img/2.jpg'']],
      image_index = [kino @ ''|'' \<mapsto> idx],
      current_image_url = [kino @ ''|'' \<mapsto> u],
      IMAGE_BLACKLIST = {}, blacklist_disk = Absent\<rparr>"

section \<open>Properties of handle\_blacklist\<close>

text \<open>
  C9: a blacklist request that names a key is answered 404 exactly when no URL has been
  recorded as last served for that key (the key being the lower-cased argument), and then
  the whole state (blacklist, blacklist file, image lists, cursors, last-served URLs) is
  returned as it was.
\<close>

theorem blacklist_no_current_image:
  "((\<exists>msg. fst (handle_blacklist w (a # args) s) = Error 404 msg)
      \<longleftrightarrow> current_image_url s (lower a) = None) \<and>
   (current_image_url s (lower a) = None \<longrightarrow>
      handle_blacklist w (a # args) s = (Error 404 ''No current image for this key'', s))"
  by (auto simp: handle_blacklist_def Let_def split: option.splits)

theorem blacklist_no_current_image_witness:
  "current_image_url (init_state Absent) (lower ''X|'') = None \<and>
   handle_blacklist Written [''X|''] (init_state Absent)
     = (Error 404 ''No current image for this key'', init_state Absent)"
  using blacklist_no_current_image [of Written "''X|''" "[]" "init_state Absent"]
  by (simp add: init_state_def)

lemma lower_example_key: "lower ''X|'' = ''x|''"
  by (simp add: lower_def lower_char_def)

lemma inv_index_None: "cache_inv s \<Longrightarrow> image_cache s k = None \<Longrightarrow> image_index s k = None"
  unfolding cache_inv_def by (metis domIff)

lemma inv_index_Some:
  "cache_inv s \<Longrightarrow> image_cache s k = Some imgs \<Longrightarrow> \<exists>idx. image_index s k = Some idx"
  unfolding cache_inv_def by blast

text \<open>What a blacklisting that goes through leaves of the key's image list and cursor.\<close>

lemma blacklist_effect:
  assumes cur: "current_image_url s (lower a) = Some u"
    and real: "\<not> contains ''ui-avatars.com'' u"
    and inv: "cache_inv s"
  shows
    "image_cache (snd (handle_blacklist w (a # args) s))
       = (image_cache s)
           (lower a := (if kept_after s (lower a) u = [] then None
                        else Some (kept_after s (lower a) u))) \<and>
     image_index (snd (handle_blacklist w (a # args) s))
       = (image_index s)
           (lower a := (if kept_after s (lower a) u = [] then None
                        else map_option (\<lambda>idx. idx mod int (length (kept_after s (lower a) u)))
                               (image_index s (lower a))))"
proof (cases "image_cache s (lower a)")
  case None
  with inv have "image_index s (lower a) = None" by (rule inv_index_None)
  with None cur real show ?thesis
    by (simp add: handle_blacklist_def Let_def kept_after_def fun_eq_iff)
next
  case (Some imgs)
  with inv obtain idx where "image_index s (lower a) = Some idx"
    using inv_index_Some by blast
  with Some cur real show ?thesis
    by (simp add: handle_blacklist_def Let_def kept_after_def)
qed



text \<open>What each handler does to the blacklist.\<close>

lemma blacklist_placeholder_answer:
  "current_image_url s (lower a) = Some u \<Longrightarrow> contains ''ui-avatars.com'' u \<Longrightarrow>
   handle_blacklist w (a # args) s
     = (Json_error ''Cannot blacklist placeholder'' (remaining s (lower a)), s)"
  by (simp add: handle_blacklist_def Let_def)

lemma blacklist_grows_by_real_urls:
  "IMAGE_BLACKLIST (snd (handle_blacklist w args s))
     \<subseteq> IMAGE_BLACKLIST s \<union> {u. \<not> contains ''ui-avatars.com'' u}"
  by (auto simp: handle_blacklist_def Let_def split: option.splits list.splits if_splits)

lemma serve_blacklist: "IMAGE_BLACKLIST (snd (serve net k s)) = IMAGE_BLACKLIST s"
  by (auto simp: serve_def Let_def split: option.splits prod.splits)

lemma artistart_blacklist:
  "IMAGE_BLACKLIST (snd (handle_artistart net args s)) = IMAGE_BLACKLIST s"
  by (auto simp: handle_artistart_def Let_def serve_blacklist split: list.splits sum.splits)

lemma handle_grows_by_real_urls:
  "IMAGE_BLACKLIST (snd (handle r s))
     \<subseteq> IMAGE_BLACKLIST s \<union> {u. \<not> contains ''ui-avatars.com'' u}"
  using blacklist_grows_by_real_urls by (cases r) (auto simp: artistart_blacklist)

lemma run_grows_by_real_urls:
  "IMAGE_BLACKLIST (run rs s) \<subseteq> IMAGE_BLACKLIST s \<union> {u. \<not> contains ''ui-avatars.com'' u}"
proof (induction rs arbitrary: s)
  case Nil
  then show ?case by simp
next
  case (Cons r rs)
  have "IMAGE_BLACKLIST (run rs (snd (handle r s)))
          \<subseteq> IMAGE_BLACKLIST (snd (handle r s)) \<union> {u. \<not> contains ''ui-avatars.com'' u}"
    by (rule Cons.IH)
  with handle_grows_by_real_urls [of r s] show ?case by auto
qed

text \<open>
  C5: a URL that contains \<^verbatim>\<open>ui-avatars.com\<close> and is not in the blacklist is not in it after
  any sequence of requests either; and a blacklist request whose last-served URL is such a
  placeholder returns the state unchanged (blacklist, image lists, cursors) and answers 200
  with the error body and the key's current record count.
\<close>

theorem placeholder_never_blacklisted:
  "(contains ''ui-avatars.com'' v \<and> v \<notin> IMAGE_BLACKLIST s \<longrightarrow> v \<notin> IMAGE_BLACKLIST (run rs s)) \<and>
   (current_image_url s (lower a) = Some u \<and> contains ''ui-avatars.com'' u \<longrightarrow>
      handle_blacklist w (a # args) s
        = (Json_error ''Cannot blacklist placeholder'' (remaining s (lower a)), s))"
  using run_grows_by_real_urls [of rs s] blacklist_placeholder_answer [of s a u w args] by auto

theorem placeholder_never_blacklisted_witness:
  "''https://ui-avatars.com/api/?name=X'' \<notin>
      IMAGE_BLACKLIST
        (run [Blacklistimg Written [''X|''], Blacklistimg Torn [''x|'']]
           (example_state [''https://ui-avatars.com/api/?name=X''] 0
              ''https://ui-avatars.com/api/?name=X'')) \<and>
   handle_blacklist Written [''X|'']
     (example_state [''https://ui-avatars.com/api/?name=X''] 0
        ''https://ui-avatars.com/api/?name=X'')
     = (Json_error ''Cannot blacklist placeholder'' 1,
        example_state [''https://ui-avatars.com/api/?name=X''] 0
          ''https://ui-avatars.com/api/?name=X'')"
proof -
  let ?u = "''https://ui-avatars.com/api/?name=X''"
  let ?s = "example_state [?u] 0 ?u"
  let ?rs = "[Blacklistimg Written [''X|''], Blacklistimg Torn [''x|'']]"
  have h1: "contains ''ui-avatars.com'' ?u" by simp
  have h2: "?u \<notin> IMAGE_BLACKLIST ?s" by (simp add: example_state_def)
  have h3: "current_image_url ?s (lower ''X|'') = Some ?u"
    by (simp add: lower_example_key example_state_def)
  have r: "remaining ?s ''x|'' = 1" by (simp add: remaining_def example_state_def)
  note inst = placeholder_never_blacklisted [of ?u ?s ?rs "''X|''" ?u Written "[]"]
  have A: "?u \<notin> IMAGE_BLACKLIST (run ?rs ?s)"
    using inst h1 h2 by blast
  have B: "handle_blacklist Written [''X|''] ?s
             = (Json_error ''Cannot blacklist placeholder'' (remaining ?s (lower ''X|'')), ?s)"
    using inst h1 h3 by blast
  show ?thesis
    using A B unfolding lower_example_key r by (rule conjI)
qed

text \<open>
  C10: when a blacklist request has answered with the removed URL \<open>u\<close> and has left the key
  without an image list, the key has no cursor either, \<open>u\<close> is still recorded as its
  last-served URL and is in the blacklist; a further blacklist request for the same key
  answers again with \<open>u\<close> and zero records left, adds nothing new to the blacklist and writes
  the file once more.
\<close>

theorem blacklist_again_after_emptying:
  assumes had: "image_cache s (lower a) = Some imgs"
    and first: "handle_blacklist w (a # args) s = (Json_blacklisted u n, s1)"
    and gone: "image_cache s1 (lower a) = None"
    and same: "lower a2 = lower a"
  shows
    "n = 0 \<and> image_index s1 (lower a) = None \<and> current_image_url s1 (lower a) = Some u \<and>
     u \<in> IMAGE_BLACKLIST s1 \<and>
     handle_blacklist w2 (a2 # args2) s1
       = (Json_blacklisted u 0,
          s1\<lparr>blacklist_disk := save_blacklist w2 (IMAGE_BLACKLIST s1) (blacklist_disk s1)\<rparr>)"
proof -
  from first obtain u' where cur: "current_image_url s (lower a) = Some u'"
    by (auto simp: handle_blacklist_def Let_def split: option.splits)
  from first cur have real: "\<not> contains ''ui-avatars.com'' u'"
    by (auto simp: handle_blacklist_def Let_def split: option.splits if_splits)
  from first cur real had have u: "u' = u"
    by (auto simp: handle_blacklist_def Let_def split: option.splits if_splits)
  from first cur real had gone u
  have s1: "n = 0" "image_index s1 (lower a) = None" "current_image_url s1 (lower a) = Some u"
    "u \<in> IMAGE_BLACKLIST s1"
    by (auto simp: handle_blacklist_def Let_def remaining_def split: option.splits if_splits)
  from s1 gone real u same
  have "handle_blacklist w2 (a2 # args2) s1
          = (Json_blacklisted u 0,
             s1\<lparr>blacklist_disk := save_blacklist w2 (IMAGE_BLACKLIST s1) (blacklist_disk s1)\<rparr>)"
    by (simp add: handle_blacklist_def Let_def remaining_def insert_absorb)
  with s1 show ?thesis by simp
qed

theorem blacklist_again_after_emptying_witness:
  "fst (handle_blacklist Refused [''x|'']
          (snd (handle_blacklist Written [''X|'']
                  (example_state [''http://img/1.jpg''] 0 ''http://img/1.jpg''))))
     = Json_blacklisted ''http://img/1.jpg'' 0 \<and>
   image_cache (snd (handle_blacklist Written [''X|'']
                  (example_state [''http://img/1.jpg''] 0 ''http://img/1.jpg''))) ''x|'' = None \<and>
   current_image_url (snd (handle_blacklist Written [''X|'']
                  (example_state [''http://img/1.jpg''] 0 ''http://img/1.jpg''))) ''x|''
     = Some ''http://img/1.jpg''"
proof -
  let ?u = "''http://img/1.jpg''"
  let ?s = "example_state [?u] 0 ?u"
  let ?s1 = "snd (handle_blacklist Written [''X|''] ?s)"
  note k = lower_example_key
  have h1: "image_cache ?s (lower ''X|'') = Some [example_image ?u]"
    by (simp add: k example_state_def)
  have h2: "handle_blacklist Written [''X|''] ?s = (Json_blacklisted ?u 0, ?s1)"
    by (simp add: prod_eq_iff handle_blacklist_def Let_def k example_state_def example_image_def
        url_of_def remaining_def)
  have h3: "image_cache ?s1 (lower ''X|'') = None"
    by (simp add: handle_blacklist_def Let_def k example_state_def example_image_def url_of_def)
  have h4: "lower ''x|'' = lower ''X|''"
    by (simp add: lower_def lower_char_def)
  show ?thesis
    using blacklist_again_after_emptying [OF h1 h2 h3 h4, of Refused "[]"] h3 by (simp add: k)
qed

section \<open>The shape of the cache\<close>

lemma py_index_in_range:
  "0 \<le> i \<Longrightarrow> i < int (length xs) \<Longrightarrow> py_index xs i = Some (xs ! nat i)"
  by (simp add: py_index_def)

lemma serve_cache: "image_cache (snd (serve net k s)) = image_cache s"
  by (auto simp: serve_def Let_def split: option.splits prod.splits)

lemma serve_hit:
  assumes "image_cache s k = Some imgs" "image_index s k = Some idx"
    and "0 \<le> idx" "idx < int (length imgs)"
  shows "serve net k s =
     (case imgs ! nat idx of (d, c, u) \<Rightarrow>
        (if headers_encodable net c k then Image d c (idx + 1) (int (length imgs)) k
         else Unhandled UnicodeEncodeError,
         s\<lparr>current_image_url := (current_image_url s)(k \<mapsto> u),
           image_index := (image_index s)(k \<mapsto> (idx + 1) mod int (length imgs))\<rparr>))"
  using assms by (simp add: serve_def py_index_in_range Let_def split: prod.splits)

lemma serve_inv:
  assumes "cache_inv s"
  shows "cache_inv (snd (serve net k s))"
proof (cases "image_cache s k")
  case None
  then show ?thesis using assms by (simp add: serve_def)
next
  case (Some imgs)
  with assms obtain idx
    where idx: "image_index s k = Some idx" "0 \<le> idx" "idx < int (length imgs)"
    unfolding cache_inv_def by blast
  have pos: "0 < int (length imgs)" using idx by linarith
  have "0 \<le> (idx + 1) mod int (length imgs)"
    and "(idx + 1) mod int (length imgs) < int (length imgs)"
    using pos by simp_all
  with assms Some idx show ?thesis
    unfolding serve_hit [OF Some idx] cache_inv_def
    by (auto split: prod.splits if_splits)
qed

lemma artistart_inv:
  assumes "cache_inv s"
  shows "cache_inv (snd (handle_artistart net args s))"
proof -
  have fresh:
    "cache_inv (s\<lparr>image_cache := (image_cache s)(k \<mapsto> imgs),
                  image_index := (image_index s)(k \<mapsto> 0)\<rparr>)"
    if "imgs \<noteq> []" for k imgs
    using assms that unfolding cache_inv_def by auto
  show ?thesis
    using assms
    by (auto simp: handle_artistart_def Let_def serve_inv fresh split: list.splits sum.splits)
qed

lemma blacklist_inv:
  assumes "cache_inv s"
  shows "cache_inv (snd (handle_blacklist w args s))"
proof (cases args)
  case Nil
  then show ?thesis using assms by (simp add: handle_blacklist_def)
next
  case (Cons a rest)
  show ?thesis
  proof (cases "current_image_url s (lower a)")
    case None
    then show ?thesis using assms Cons by (simp add: handle_blacklist_def)
  next
    case (Some u)
    show ?thesis
    proof (cases "contains ''ui-avatars.com'' u")
      case True
      then show ?thesis using assms Cons Some by (simp add: handle_blacklist_def)
    next
      case False
      note facts = blacklist_effect [OF Some False assms, of w rest]
      let ?s' = "snd (handle_blacklist w (a # rest) s)"
      let ?kept = "kept_after s (lower a) u"
      have c: "image_cache ?s'
                 = (image_cache s)(lower a := (if ?kept = [] then None else Some ?kept))"
        using facts by blast
      have i: "image_index ?s'
                 = (image_index s)
                     (lower a := (if ?kept = [] then None
                                  else map_option (\<lambda>idx. idx mod int (length ?kept))
                                         (image_index s (lower a))))"
        using facts by blast
      have idx: "\<exists>idx. image_index s (lower a) = Some idx" if "?kept \<noteq> []"
        using that assms unfolding kept_after_def cache_inv_def by (auto split: option.splits)
      have "cache_inv ?s'"
        unfolding cache_inv_def c i using assms idx
        by (auto simp: cache_inv_def split: if_splits)
      then show ?thesis using Cons by simp
    qed
  qed
qed

lemma handle_inv: "cache_inv s \<Longrightarrow> cache_inv (snd (handle r s))"
  by (cases r) (simp_all add: artistart_inv blacklist_inv)

lemma run_inv: "cache_inv s \<Longrightarrow> cache_inv (run rs s)"
  by (induction rs arbitrary: s) (simp_all add: handle_inv)

lemma init_inv: "cache_inv (init_state f)"
  by (simp add: cache_inv_def init_state_def)

text \<open>Every state reached from a process start has the shape \<open>cache_inv\<close>.\<close>

lemma reachable_inv: "cache_inv (run rs (init_state f))"
  by (rule run_inv) (rule init_inv)

lemma reachable_cursor_in_range:
  assumes "image_cache (run rs (init_state f)) k = Some imgs"
  shows "\<exists>idx. image_index (run rs (init_state f)) k = Some idx \<and> 0 \<le> idx \<and>
           idx < int (length imgs)"
  using reachable_inv [of rs f] assms unfolding cache_inv_def by blast

lemma serve_nonempty: "nonempty_sets s \<Longrightarrow> nonempty_sets (snd (serve net k s))"
  by (simp add: nonempty_sets_def serve_cache)

lemma artistart_nonempty:
  assumes "nonempty_sets s"
  shows "nonempty_sets (snd (handle_artistart net args s))"
proof -
  have fresh:
    "nonempty_sets (s\<lparr>image_cache := (image_cache s)(k \<mapsto> imgs),
                      image_index := (image_index s)(k \<mapsto> 0)\<rparr>)"
    if "imgs \<noteq> []" for k imgs
    using assms that unfolding nonempty_sets_def by auto
  show ?thesis
    using assms
    by (auto simp: handle_artistart_def Let_def serve_nonempty fresh
        split: list.splits sum.splits)
qed

lemma blacklist_nonempty:
  "nonempty_sets s \<Longrightarrow> nonempty_sets (snd (handle_blacklist w args s))"
  unfolding nonempty_sets_def handle_blacklist_def
  by (auto simp: Let_def split: list.splits option.splits if_splits)

lemma handle_nonempty: "nonempty_sets s \<Longrightarrow> nonempty_sets (snd (handle r s))"
  by (cases r) (simp_all add: artistart_nonempty blacklist_nonempty)

lemma run_nonempty: "nonempty_sets s \<Longrightarrow> nonempty_sets (run rs s)"
  by (induction rs arbitrary: s) (simp_all add: handle_nonempty)

lemma init_nonempty: "nonempty_sets (init_state f)"
  by (simp add: nonempty_sets_def init_state_def)

text \<open>
  C7: after any sequence of requests from a process start no key has an empty image list;
  and each of the two handlers, started in a state without an empty list, ends in one.
\<close>

theorem image_sets_never_empty:
  "nonempty_sets (run rs (init_state f)) \<and>
   (nonempty_sets s \<longrightarrow>
      nonempty_sets (snd (handle_artistart net args s)) \<and>
      nonempty_sets (snd (handle_blacklist w args' s)))"
  by (simp add: run_nonempty init_nonempty artistart_nonempty blacklist_nonempty)

theorem image_sets_never_empty_witness:
  "nonempty_sets (example_state [''http://img/1.jpg''] 0 ''http://img/1.jpg'') \<and>
   nonempty_sets (snd (handle_artistart (fixed_network [] []) [''X'']
                         (example_state [''http://img/1.jpg''] 0 ''http://img/1.jpg''))) \<and>
   nonempty_sets (snd (handle_blacklist Written [''X|'']
                         (example_state [''http://img/1.jpg''] 0 ''http://img/1.jpg''))) \<and>
   image_cache (snd (handle_blacklist Written [''X|'']
                         (example_state [''http://img/1.jpg''] 0 ''http://img/1.jpg''))) ''x|''
     = None"
proof -
  let ?s = "example_state [''http://img/1.jpg''] 0 ''http://img/1.jpg''"
  have h: "nonempty_sets ?s"
    by (auto simp: nonempty_sets_def example_state_def split: if_splits)
  have gone: "image_cache (snd (handle_blacklist Written [''X|''] ?s)) ''x|'' = None"
    by (simp add: handle_blacklist_def Let_def lower_example_key example_state_def
        example_image_def url_of_def)
  show ?thesis
    using image_sets_never_empty [of "[]" Absent ?s "fixed_network [] []" "[''X'']" Written
        "[''X|'']"] h gone
    by simp
qed

section \<open>Rotation\<close>

lemma artistart_hit:
  assumes "args \<noteq> []" "image_cache s (key_of_args args) \<noteq> None"
  shows "handle_artistart net args s = serve net (key_of_args args) s"
  using assms by (auto simp: handle_artistart_def key_of_args_def Let_def split: list.splits)

text \<open>
  Where the key and the content types of the key's records can be sent as Latin-1 header
  values, every header of the response can be built, whatever the request's version.
\<close>

lemma record_headers_encodable:
  assumes key: "latin1_encodable k"
    and types: "\<forall>img \<in> set imgs. latin1_encodable (fst (snd img))"
    and i: "i < length imgs"
  shows "headers_encodable net (fst (snd (imgs ! i))) k"
  using key types i by (simp add: headers_encodable_def)

lemma serve_hit_encodable:
  assumes cache: "image_cache s k = Some imgs"
    and cursor: "image_index s k = Some idx"
    and range: "0 \<le> idx" "idx < int (length imgs)"
    and key: "latin1_encodable k"
    and types: "\<forall>img \<in> set imgs. latin1_encodable (fst (snd img))"
  shows "serve net k s =
     (case imgs ! nat idx of (d, c, u) \<Rightarrow>
        (Image d c (idx + 1) (int (length imgs)) k,
         s\<lparr>current_image_url := (current_image_url s)(k \<mapsto> u),
           image_index := (image_index s)(k \<mapsto> (idx + 1) mod int (length imgs))\<rparr>))"
proof -
  have i: "nat idx < length imgs" using range by linarith
  have "headers_encodable net (fst (snd (imgs ! nat idx))) k"
    by (rule record_headers_encodable [OF key types i])
  then show ?thesis
    unfolding serve_hit [OF cache cursor range] by (auto split: prod.splits)
qed

lemma hit_reply:
  assumes "args \<noteq> []" "image_cache s (key_of_args args) = Some imgs"
    and "image_index s (key_of_args args) = Some idx" "0 \<le> idx" "idx < int (length imgs)"
    and "latin1_encodable (key_of_args args)"
    and "\<forall>img \<in> set imgs. latin1_encodable (fst (snd img))"
  shows "nth_reply nets net args s =
     (case imgs ! nat ((idx + int (length nets)) mod int (length imgs)) of (d, c, u) \<Rightarrow>
        Image d c ((idx + int (length nets)) mod int (length imgs) + 1) (int (length imgs))
          (key_of_args args))"
  using assms
proof (induction nets arbitrary: s idx)
  case Nil
  then show ?case
    by (simp add: nth_reply_def artistart_hit serve_hit_encodable split: prod.splits)
next
  case (Cons n nets)
  let ?k = "key_of_args args"
  let ?s' = "snd (handle_artistart n args s)"
  let ?idx' = "(idx + 1) mod int (length imgs)"
  have pos: "0 < int (length imgs)" using Cons.prems by linarith
  have step: "handle_artistart n args s = serve n ?k s"
    using Cons.prems by (simp add: artistart_hit)
  have c: "image_cache ?s' ?k = Some imgs"
    using Cons.prems by (simp add: step serve_cache)
  have i: "image_index ?s' ?k = Some ?idx'"
    using Cons.prems by (simp add: step serve_hit split: prod.splits)
  have r: "0 \<le> ?idx'" "?idx' < int (length imgs)" using pos by simp_all
  have "nth_reply (n # nets) net args s = nth_reply nets net args ?s'"
    by (simp add: nth_reply_def)
  also have "\<dots> =
     (case imgs ! nat ((?idx' + int (length nets)) mod int (length imgs)) of (d, c, u) \<Rightarrow>
        Image d c ((?idx' + int (length nets)) mod int (length imgs) + 1) (int (length imgs)) ?k)"
    by (rule Cons.IH [OF Cons.prems(1) c i r Cons.prems(6) Cons.prems(7)])
  also have "(?idx' + int (length nets)) mod int (length imgs)
               = (idx + int (length (n # nets))) mod int (length imgs)"
    by (simp add: mod_add_left_eq) (simp add: algebra_simps)
  finally show ?case .
qed

lemma hit_position:
  assumes "args \<noteq> []" "image_cache s (key_of_args args) = Some imgs"
    and "image_index s (key_of_args args) = Some idx" "0 \<le> idx" "idx < int (length imgs)"
    and "latin1_encodable (key_of_args args)"
    and "\<forall>img \<in> set imgs. latin1_encodable (fst (snd img))"
  shows "position (nth_reply nets net args s)
           = Some ((idx + int (length nets)) mod int (length imgs) + 1)"
    and "total (nth_reply nets net args s) = Some (int (length imgs))"
  unfolding hit_reply [OF assms] by (simp_all split: prod.splits)

text \<open>
  Rotation where the headers can be built. Let the key of the arguments have the image
  list \<open>imgs\<close> and a cursor \<open>idx\<close> inside it, and let the key and the content types of the
  records be encodable in Latin-1. An artistart request serves the record at \<open>idx\<close>, reports
  position \<open>idx + 1\<close> of \<open>length imgs\<close>, records the record's URL as last served and moves
  the cursor to \<open>(idx + 1) mod length imgs\<close>. Over repeated requests the reported total
  stays \<open>length imgs\<close>; each request reports the position of the one before it advanced by
  one modulo the total; \<open>length imgs\<close> requests later the position is the same again, which
  is position 1 when the cursor started at 0; and a list of one record is always reported
  as position 1 of 1.
\<close>

lemma rotation_with_encodable_headers:
  assumes args: "args \<noteq> []"
    and cache: "image_cache s (key_of_args args) = Some imgs"
    and cursor: "image_index s (key_of_args args) = Some idx"
    and range: "0 \<le> idx" "idx < int (length imgs)"
    and key: "latin1_encodable (key_of_args args)"
    and types: "\<forall>img \<in> set imgs. latin1_encodable (fst (snd img))"
  shows
    "handle_artistart net args s =
       (case imgs ! nat idx of (d, c, u) \<Rightarrow>
          (Image d c (idx + 1) (int (length imgs)) (key_of_args args),
           s\<lparr>current_image_url := (current_image_url s)(key_of_args args \<mapsto> u),
             image_index :=
               (image_index s)(key_of_args args \<mapsto> (idx + 1) mod int (length imgs))\<rparr>)) \<and>
     total (nth_reply nets net args s) = Some (int (length imgs)) \<and>
     position (nth_reply nets net args s)
       = Some ((idx + int (length nets)) mod int (length imgs) + 1) \<and>
     position (nth_reply (nets @ [net]) net' args s)
       = map_option (\<lambda>p. p mod int (length imgs) + 1) (position (nth_reply nets net args s)) \<and>
     (length extra = length imgs \<longrightarrow>
        position (nth_reply (nets @ extra) net args s) = position (nth_reply nets net args s)) \<and>
     (idx = 0 \<and> length nets = length imgs \<longrightarrow>
        position (nth_reply [] net args s) = Some 1 \<and>
        position (nth_reply nets net args s) = Some 1) \<and>
     (length imgs = 1 \<longrightarrow>
        position (nth_reply nets net args s) = Some 1 \<and>
        total (nth_reply nets net args s) = Some 1)"
proof -
  note pos = hit_position [OF args cache cursor range key types]
  have one: "handle_artistart net args s =
       (case imgs ! nat idx of (d, c, u) \<Rightarrow>
          (Image d c (idx + 1) (int (length imgs)) (key_of_args args),
           s\<lparr>current_image_url := (current_image_url s)(key_of_args args \<mapsto> u),
             image_index :=
               (image_index s)(key_of_args args \<mapsto> (idx + 1) mod int (length imgs))\<rparr>))"
    using args cache
    by (simp add: artistart_hit serve_hit_encodable [OF cache cursor range key types])
  have succ: "position (nth_reply (nets @ [net]) net' args s)
       = map_option (\<lambda>p. p mod int (length imgs) + 1) (position (nth_reply nets net args s))"
    by (simp add: pos mod_add_left_eq) (simp add: algebra_simps)
  have cycle: "position (nth_reply (nets @ extra) net args s) = position (nth_reply nets net args s)"
    if "length extra = length imgs"
    using that by (simp add: pos add.assoc [symmetric])
  have fresh: "position (nth_reply [] net args s) = Some 1 \<and>
        position (nth_reply nets net args s) = Some 1"
    if "idx = 0 \<and> length nets = length imgs"
    using that by (simp add: pos)
  have single: "position (nth_reply nets net args s) = Some 1 \<and>
        total (nth_reply nets net args s) = Some 1"
    if "length imgs = 1"
    using that by (simp add: pos)
  show ?thesis
    using one pos succ cycle fresh single by blast
qed

text \<open>Three requests on a list of two records: positions 1, 2 and 1 again, of 2.\<close>

lemma rotation_of_two_records:
  "position (nth_reply [] (fixed_network [] []) [''X'']
      (example_state [''http://img/1.jpg'', ''http://img/2.jpg''] 0 ''http://img/1.jpg''))
     = Some 1 \<and>
   position (nth_reply [fixed_network [] []] (fixed_network [] []) [''X'']
      (example_state [''http://img/1.jpg'', ''http://img/2.jpg''] 0 ''http://img/1.jpg''))
     = Some 2 \<and>
   position (nth_reply [fixed_network [] [], fixed_network [] []] (fixed_network [] []) [''X'']
      (example_state [''http://img/1.jpg'', ''http://img/2.jpg''] 0 ''http://img/1.jpg''))
     = Some 1 \<and>
   total (nth_reply [fixed_network [] []] (fixed_network [] []) [''X'']
      (example_state [''http://img/1.jpg'', ''http://img/2.jpg''] 0 ''http://img/1.jpg''))
     = Some 2"
proof -
  let ?n = "fixed_network [] []"
  let ?imgs = "[example_image ''http://img/1.jpg'', example_image ''http://img/2.jpg'']"
  let ?s = "example_state [''http://img/1.jpg'', ''http://img/2.jpg''] 0 ''http://img/1.jpg''"
  have k: "key_of_args [''X''] = ''x|''"
    by (simp add: key_of_args_def cache_key_of_def strip_def isspace_def lower_def lower_char_def)
  have h1: "[''X''] \<noteq> []" by simp
  have h2: "image_cache ?s (key_of_args [''X'']) = Some ?imgs"
    by (simp add: k example_state_def)
  have h3: "image_index ?s (key_of_args [''X'']) = Some 0"
    by (simp add: k example_state_def)
  have h4: "(0::int) \<le> 0" by simp
  have h5: "0 < int (length ?imgs)" by simp
  have h6: "latin1_encodable (key_of_args [''X''])"
    by (simp add: k is_ascii_def)
  have h7: "\<forall>img \<in> set ?imgs. latin1_encodable (fst (snd img))"
    by (simp add: example_image_def is_ascii_def)
  note pos = hit_position [OF h1 h2 h3 h4 h5 h6 h7]
  show ?thesis
    by (simp add: pos)
qed

section \<open>The cache miss\<close>

lemma artistart_miss:
  assumes "key_of_args (a # rest) \<notin> dom (image_cache s)"
  shows "handle_artistart net (a # rest) s =
     (case filtered_candidates net (a # rest) s of
        Inl e \<Rightarrow> (Unhandled e, s)
      | Inr image_urls \<Rightarrow>
          if image_urls = [] then (NoContent, s)
          else if download_all net 0 image_urls = []
          then (Error 404 ''Could not fetch images'', s)
          else serve net (key_of_args (a # rest))
                 (s\<lparr>image_cache :=
                      (image_cache s)(key_of_args (a # rest) \<mapsto> download_all net 0 image_urls),
                    image_index := (image_index s)(key_of_args (a # rest) \<mapsto> 0)\<rparr>))"
  using assms unfolding handle_artistart_def filtered_candidates_def Let_def
  by (simp add: key_of_args_def split: sum.splits)

lemma serve_fresh_not_empty:
  assumes "imgs \<noteq> []"
  shows "fst (serve net k (s\<lparr>image_cache := (image_cache s)(k \<mapsto> imgs),
                             image_index := (image_index s)(k \<mapsto> 0)\<rparr>)) \<noteq> NoContent"
  using assms by (simp add: serve_def py_index_def Let_def split: prod.splits)

text \<open>
  C3: on a cache miss whose blacklist filter returns the list \<open>image_urls\<close>: an empty list is
  answered 204 and a non-empty list of which nothing downloads is answered 404, both with the
  state (so also the image lists) unchanged; and the answer is 204 only if the list is empty.
\<close>

theorem empty_versus_not_found:
  assumes miss: "key_of_args (a # rest) \<notin> dom (image_cache s)"
    and cands: "filtered_candidates net (a # rest) s = Inr image_urls"
  shows
    "(image_urls = [] \<longrightarrow> handle_artistart net (a # rest) s = (NoContent, s)) \<and>
     (image_urls \<noteq> [] \<and> download_all net 0 image_urls = [] \<longrightarrow>
        handle_artistart net (a # rest) s = (Error 404 ''Could not fetch images'', s)) \<and>
     (fst (handle_artistart net (a # rest) s) = NoContent \<longleftrightarrow> image_urls = []) \<and>
     NoContent \<noteq> Error 404 ''Could not fetch images''"
proof -
  let ?k = "key_of_args (a # rest)"
  let ?imgs = "download_all net 0 image_urls"
  note step = artistart_miss [OF miss, of net]
  have empty: "handle_artistart net (a # rest) s = (NoContent, s)" if "image_urls = []"
    unfolding step cands using that by simp
  have failed: "handle_artistart net (a # rest) s = (Error 404 ''Could not fetch images'', s)"
    if "image_urls \<noteq> []" "?imgs = []"
    unfolding step cands using that by simp
  have served: "handle_artistart net (a # rest) s
       = serve net ?k (s\<lparr>image_cache := (image_cache s)(?k \<mapsto> ?imgs),
                     image_index := (image_index s)(?k \<mapsto> 0)\<rparr>)"
    if "image_urls \<noteq> []" "?imgs \<noteq> []"
    unfolding step cands using that by simp
  have only: "image_urls = []" if r: "fst (handle_artistart net (a # rest) s) = NoContent"
  proof (rule ccontr)
    assume ne: "image_urls \<noteq> []"
    show False
    proof (cases "?imgs = []")
      case True
      from r show False unfolding failed [OF ne True] by simp
    next
      case False
      from r serve_fresh_not_empty [OF False, of net ?k s]
      show False unfolding served [OF ne False] by blast
    qed
  qed
  have c1: "image_urls = [] \<longrightarrow> handle_artistart net (a # rest) s = (NoContent, s)"
    using empty by blast
  have c2: "image_urls \<noteq> [] \<and> ?imgs = [] \<longrightarrow>
        handle_artistart net (a # rest) s = (Error 404 ''Could not fetch images'', s)"
    using failed by blast
  have c3: "fst (handle_artistart net (a # rest) s) = NoContent \<longleftrightarrow> image_urls = []"
  proof
    assume "fst (handle_artistart net (a # rest) s) = NoContent"
    then show "image_urls = []" by (rule only)
  next
    assume "image_urls = []"
    then show "fst (handle_artistart net (a # rest) s) = NoContent"
      by (simp add: empty)
  qed
  have c4: "NoContent \<noteq> Error 404 ''Could not fetch images''" by simp
  from c1 c2 c3 c4 show ?thesis by (intro conjI)
qed

lemma example_artist_key: "key_of_args [''X''] = ''x|''"
  by (simp add: key_of_args_def cache_key_of_def strip_def isspace_def lower_def lower_char_def)

lemma strip_example: "strip ''X'' = ''X''"
  by (simp add: strip_def isspace_def)

lemma collect_nothing: "collect_urls (fixed_network [] []) ''X'' [] = []"
  by (simp add: collect_urls_def Let_def fixed_network_def deezer_artist_def deezer_track_def
      audiodb_artist_def)

lemma collect_artist:
  "collect_urls (artist_network bodies) ''X'' []
     = [JStr ''http://img/1.jpg'', JStr ''http://img/2.jpg'']"
  by (simp add: collect_urls_def Let_def artist_network_def fixed_network_def deezer_artist_def
      deezer_track_def audiodb_artist_def first_of_def fmlookup_of_list)

theorem empty_versus_not_found_witness:
  "handle_artistart (fixed_network [] []) [''X''] (init_state Absent)
     = (NoContent, init_state Absent) \<and>
   handle_artistart (artist_network []) [''X''] (init_state Absent)
     = (Error 404 ''Could not fetch images'', init_state Absent)"
proof -
  let ?s = "init_state Absent"
  have miss: "key_of_args [''X''] \<notin> dom (image_cache ?s)"
    by (simp add: init_state_def)
  have c1: "filtered_candidates (fixed_network [] []) [''X''] ?s = Inr []"
    by (simp add: filtered_candidates_def strip_example collect_nothing)
  have c2: "filtered_candidates (artist_network []) [''X''] ?s
              = Inr [JStr ''http://img/1.jpg'', JStr ''http://img/2.jpg'']"
    by (simp add: filtered_candidates_def strip_example collect_artist init_state_def
        load_blacklist_def)
  have d2: "download_all (artist_network []) 0 [JStr ''http://img/1.jpg'', JStr ''http://img/2.jpg'']
              = []"
    by (simp add: fetch_def artist_network_def fixed_network_def)
  show ?thesis
    using empty_versus_not_found [OF miss c1] empty_versus_not_found [OF miss c2] d2
    by simp
qed

lemma filter_blacklisted_sound:
  "filter_blacklisted blacklist us = Inr vs \<Longrightarrow> JStr u \<in> set vs \<Longrightarrow> u \<notin> blacklist"
proof (induction blacklist us arbitrary: vs rule: filter_blacklisted.induct)
  case (1 blacklist)
  then show ?case by simp
next
  case (2 blacklist v us)
  then show ?case by (auto split: sum.splits if_splits)
next
  case (3 blacklist us)
  then show ?case by (auto split: sum.splits)
next
  case (4 blacklist xs us)
  then show ?case by simp
next
  case (5 blacklist m us)
  then show ?case by simp
qed

lemma download_all_url: "img \<in> set (download_all net n us) \<Longrightarrow> JStr (url_of img) \<in> set us"
  by (induction us arbitrary: n)
    (auto simp: fetch_def url_of_def split: option.splits json.splits if_splits prod.splits)

lemma handle_blacklist_mono: "IMAGE_BLACKLIST s \<subseteq> IMAGE_BLACKLIST (snd (handle r s))"
proof (cases r)
  case (Artistart net args)
  then show ?thesis by (simp add: artistart_blacklist)
next
  case (Blacklistimg w args)
  then show ?thesis
    by (auto simp: handle_blacklist_def Let_def split: list.splits option.splits if_splits)
qed

lemma run_blacklist_mono: "IMAGE_BLACKLIST s \<subseteq> IMAGE_BLACKLIST (run rs s)"
proof (induction rs arbitrary: s)
  case Nil
  then show ?case by simp
next
  case (Cons r rs)
  from handle_blacklist_mono [of s r] Cons.IH [of "snd (handle r s)"]
  show ?case by auto
qed

lemma new_set_is_download:
  assumes none: "image_cache s k = None"
    and some: "image_cache (snd (handle_artistart net args s)) k = Some imgs"
  shows "\<exists>image_urls. filtered_candidates net args s = Inr image_urls \<and>
           imgs = download_all net 0 image_urls"
proof (cases args)
  case Nil
  with none some show ?thesis by (simp add: handle_artistart_def)
next
  case (Cons a rest)
  show ?thesis
  proof (cases "key_of_args (a # rest) \<in> dom (image_cache s)")
    case True
    then have "handle_artistart net (a # rest) s = serve net (key_of_args (a # rest)) s"
      by (auto simp: artistart_hit)
    with none some Cons show ?thesis by (simp add: serve_cache)
  next
    case False
    note step = artistart_miss [OF False, of net]
    show ?thesis
    proof (cases "filtered_candidates net (a # rest) s")
      case (Inl e)
      with none some Cons show ?thesis by (simp add: step)
    next
      case (Inr image_urls)
      with none some Cons show ?thesis
        by (auto simp: step serve_cache split: if_splits)
    qed
  qed
qed

text \<open>
  C6: when an artistart request gives a key an image list that it did not have, no record
  of the new list has a URL that was in the blacklist when the request was handled; this
  covers every URL of the blacklist file read at process start, whatever requests came
  before.
\<close>

theorem new_image_set_avoids_blacklist:
  assumes none: "image_cache s k = None"
    and some: "image_cache (snd (handle_artistart net args s)) k = Some imgs"
    and img: "img \<in> set imgs"
  shows "url_of img \<notin> IMAGE_BLACKLIST s \<and>
         (s = run rs (init_state f) \<longrightarrow> url_of img \<notin> load_blacklist f)"
proof -
  from new_set_is_download [OF none some] obtain image_urls
    where f: "filtered_candidates net args s = Inr image_urls"
      and d: "imgs = download_all net 0 image_urls"
    by blast
  from img d have "JStr (url_of img) \<in> set image_urls"
    by (auto dest: download_all_url)
  moreover from f have "args \<noteq> [] \<longrightarrow> (\<exists>us. filter_blacklisted (IMAGE_BLACKLIST s) us = Inr image_urls)"
    by (auto simp: filtered_candidates_def split: list.splits)
  moreover from f img d have "args \<noteq> []"
    by (auto simp: filtered_candidates_def)
  ultimately have no: "url_of img \<notin> IMAGE_BLACKLIST s"
    by (auto dest: filter_blacklisted_sound)
  have "load_blacklist f \<subseteq> IMAGE_BLACKLIST (run rs (init_state f))"
    using run_blacklist_mono [of "init_state f" rs] by (simp add: init_state_def)
  with no show ?thesis by auto
qed

theorem new_image_set_avoids_blacklist_witness:
  "image_cache
     (snd (handle_artistart
             (artist_network [(''http://img/1.jpg'', replicate 501 0, None),
                              (''http://img/2.jpg'', replicate 501 0, None)])
             [''X''] (init_state (Stored {''http://img/1.jpg''})))) ''x|''
     = Some [(replicate 501 0, ''image/jpeg'', ''http://img/2.jpg'')] \<and>
   ''http://img/2.jpg'' \<notin> IMAGE_BLACKLIST (init_state (Stored {''http://img/1.jpg''})) \<and>
   ''http://img/2.jpg'' \<notin> load_blacklist (Stored {''http://img/1.jpg''})"
proof -
  let ?net = "artist_network [(''http://img/1.jpg'', replicate 501 0, None),
                              (''http://img/2.jpg'', replicate 501 0, None)]"
  let ?f = "Stored {''http://img/1.jpg''}"
  let ?s = "init_state ?f"
  let ?img = "(replicate 501 0, ''image/jpeg'', ''http://img/2.jpg'') :: image"
  have none: "image_cache ?s ''x|'' = None"
    by (simp add: init_state_def)
  have miss: "key_of_args [''X''] \<notin> dom (image_cache ?s)"
    by (simp add: init_state_def)
  have cands: "filtered_candidates ?net [''X''] ?s = Inr [JStr ''http://img/2.jpg'']"
    by (simp add: filtered_candidates_def strip_example collect_artist init_state_def
        load_blacklist_def)
  have got: "download_all ?net 0 [JStr ''http://img/2.jpg''] = [?img]"
    by (simp add: fetch_def artist_network_def fixed_network_def)
  have some: "image_cache (snd (handle_artistart ?net [''X''] ?s)) ''x|'' = Some [?img]"
    unfolding artistart_miss [OF miss] cands
    by (simp add: got serve_cache example_artist_key del: download_all.simps)
  have img: "?img \<in> set [?img]" by simp
  have start: "?s = run [] (init_state ?f)" by simp
  show ?thesis
    using new_image_set_avoids_blacklist [OF none some img, of "[]" ?f] some start
    by (simp add: url_of_def)
qed

section \<open>The size threshold of the download loop\<close>

lemma fetch_downloaded:
  assumes "urlopen_image net n u = Some (img_data, header)"
  shows "fetch net n (JStr u) =
     (if 500 < length img_data
      then Some (img_data, (case header of None \<Rightarrow> ''image/jpeg'' | Some c \<Rightarrow> c), u)
      else None)"
  using assms by (simp add: fetch_def)

text \<open>
  C8, as the code has it: a payload that downloads is dropped exactly when it has at most
  500 bytes; one of more than 500 bytes is kept with its data, its content type
  (\<^verbatim>\<open>image/jpeg\<close> when the response has no Content-Type header) and its URL; either way the
  loop goes on to the remaining candidates.
\<close>

theorem fetch_size_threshold:
  assumes got: "urlopen_image net n u = Some (img_data, header)"
  shows
    "(fetch net n (JStr u) = None \<longleftrightarrow> length img_data \<le> 500) \<and>
     (500 < length img_data \<longrightarrow>
        fetch net n (JStr u)
          = Some (img_data, (case header of None \<Rightarrow> ''image/jpeg'' | Some c \<Rightarrow> c), u)) \<and>
     download_all net n (JStr u # us)
       = (if 500 < length img_data
          then [(img_data, (case header of None \<Rightarrow> ''image/jpeg'' | Some c \<Rightarrow> c), u)]
          else [])
         @ download_all net (Suc n) us"
proof -
  note f = fetch_downloaded [OF got]
  have a: "fetch net n (JStr u) = None \<longleftrightarrow> length img_data \<le> 500"
    unfolding f by auto
  have b: "500 < length img_data \<longrightarrow>
        fetch net n (JStr u)
          = Some (img_data, (case header of None \<Rightarrow> ''image/jpeg'' | Some c \<Rightarrow> c), u)"
    unfolding f by simp
  have c: "download_all net n (JStr u # us)
       = (if 500 < length img_data
          then [(img_data, (case header of None \<Rightarrow> ''image/jpeg'' | Some c \<Rightarrow> c), u)]
          else [])
         @ download_all net (Suc n) us"
    by (simp add: f)
  from a b c show ?thesis by (intro conjI)
qed

theorem fetch_size_threshold_witness:
  "fetch (fixed_network [] [(''http://img/1.jpg'', replicate 501 0, Some ''image/png'')]) 0
     (JStr ''http://img/1.jpg'')
     = Some (replicate 501 0, ''image/png'', ''http://img/1.jpg'') \<and>
   download_all (fixed_network [] [(''http://img/1.jpg'', replicate 501 0, Some ''image/png'')]) 0
     [JStr ''http://img/1.jpg'', JStr ''http://img/2.jpg'']
     = [(replicate 501 0, ''image/png'', ''http://img/1.jpg'')]"
proof -
  let ?net = "fixed_network [] [(''http://img/1.jpg'', replicate 501 0, Some ''image/png'')]"
  have got: "urlopen_image ?net 0 ''http://img/1.jpg''
               = Some (replicate 501 0, Some ''image/png'')"
    by (simp add: fixed_network_def)
  have rest: "download_all ?net (Suc 0) [JStr ''http://img/2.jpg''] = []"
    by (simp add: fetch_def fixed_network_def)
  show ?thesis
    using fetch_size_threshold [OF got, of "[JStr ''http://img/2.jpg'']"] rest
    by (simp del: download_all.simps)
qed

text \<open>
  A payload of exactly 500 bytes is not below 500 bytes; it downloads, and the loop drops it.
\<close>

theorem fetch_size_threshold_counterexample:
  "urlopen_image (fixed_network [] [(''http://img/1.jpg'', replicate 500 0, None)]) 0
     ''http://img/1.jpg'' = Some (replicate 500 0, None) \<and>
   \<not> length (replicate 500 (0 :: 8 word)) < 500 \<and>
   fetch (fixed_network [] [(''http://img/1.jpg'', replicate 500 0, None)]) 0
     (JStr ''http://img/1.jpg'') = None"
  by (simp add: fetch_def fixed_network_def)

section \<open>Duplicate candidates\<close>

text \<open>
  The three provider blocks of lines 275-316 test \<^verbatim>\<open>not in image_urls\<close> before they append:
  they keep a duplicate-free list duplicate-free.
\<close>

lemma append_first_new_distinct:
  "distinct image_urls \<Longrightarrow> distinct (append_first_new art keys image_urls)"
  by (induction keys) (auto split: option.splits)

lemma append_new_keys_distinct:
  "distinct image_urls \<Longrightarrow> distinct (append_new_keys art keys image_urls)"
  by (induction keys arbitrary: image_urls) (auto split: option.splits)

lemma append_covers_distinct:
  "distinct image_urls \<Longrightarrow> distinct (append_covers tracks image_urls)"
  by (induction tracks arbitrary: image_urls) (auto split: option.splits)

lemma deezer_artist_distinct:
  "distinct image_urls \<Longrightarrow> distinct (deezer_artist resp image_urls)"
  by (auto simp: deezer_artist_def append_first_new_distinct simp del: append_first_new.simps
      split: option.splits)

lemma deezer_artists_distinct:
  "distinct image_urls \<Longrightarrow> distinct (deezer_artists net n terms image_urls)"
  by (induction terms arbitrary: n image_urls) (simp_all add: deezer_artist_distinct)

lemma deezer_track_distinct:
  "distinct image_urls \<Longrightarrow> distinct (deezer_track resp image_urls)"
  by (auto simp: deezer_track_def append_covers_distinct simp del: append_covers.simps
      split: option.splits json.splits)

lemma audiodb_artist_distinct:
  "distinct image_urls \<Longrightarrow> distinct (audiodb_artist resp image_urls)"
  by (auto simp: audiodb_artist_def append_new_keys_distinct simp del: append_new_keys.simps
      split: option.splits)

lemma later_blocks_distinct:
  assumes "distinct urls1"
  shows "distinct
     (audiodb_artist r5
        (if c then deezer_track r4 (deezer_artists net n terms urls1)
         else deezer_artists net n terms urls1))"
  using assms by (simp add: audiodb_artist_distinct deezer_track_distinct deezer_artists_distinct)

lemma collect_urls_distinct_without_album_art:
  assumes "album = [] \<or> lower album \<in> set [''soundtrack'', ''ost'', ''game'', ''movie'']"
  shows "distinct (collect_urls net artist album)"
proof -
  have skip: "\<not> (album \<noteq> [] \<and>
      \<not> (album \<noteq> [] \<and> lower album \<in> set [''soundtrack'', ''ost'', ''game'', ''movie'']))"
    using assms by blast
  show ?thesis
    unfolding collect_urls_def Let_def
    by (rule later_blocks_distinct) (simp only: skip if_False distinct.simps)
qed

lemma collect_duplicate:
  "collect_urls duplicate_network ''a'' ''b''
     = [JStr ''http://img/1.jpg'', JStr ''http://img/1.jpg'']"
  by (simp add: collect_urls_def Let_def lower_def lower_char_def duplicate_network_def
      fixed_network_def deezer_album_def audiodb_album_def deezer_artist_def deezer_track_def
      audiodb_artist_def first_of_def fmlookup_of_list)

lemma download_duplicate:
  "download_all duplicate_network 0 [JStr ''http://img/1.jpg'', JStr ''http://img/1.jpg'']
     = [(replicate 501 0, ''image/png'', ''http://img/1.jpg''),
        (replicate 501 0, ''image/png'', ''http://img/1.jpg'')]"
  by (simp add: fetch_def duplicate_network_def fixed_network_def)

lemma strip_a_b: "strip ''a'' = ''a''" "strip ''b'' = ''b''"
  by (simp_all add: strip_def isspace_def)

lemma key_a_b: "key_of_args [''a'', ''b''] = ''a|b''"
  by (simp add: key_of_args_def cache_key_of_def strip_a_b lower_def lower_char_def)

text \<open>
  C2 fails on the album-art blocks of lines 239-263, which append without the membership
  test: for artist \<^verbatim>\<open>a\<close> and album \<^verbatim>\<open>b\<close>, with TheAudioDB returning one URL under both
  \<^verbatim>\<open>strAlbumThumb\<close> and \<^verbatim>\<open>strAlbumThumbHQ\<close>, the list handed to the download loop holds that
  URL twice, it is downloaded twice, and the key's image list holds two records of it.
\<close>

theorem album_art_candidates_duplicated:
  "filtered_candidates duplicate_network [''a'', ''b''] (init_state Absent)
     = Inr [JStr ''http://img/1.jpg'', JStr ''http://img/1.jpg''] \<and>
   \<not> distinct (collect_urls duplicate_network ''a'' ''b'') \<and>
   handle_artistart duplicate_network [''a'', ''b''] (init_state Absent)
     = (Image (replicate 501 0) ''image/png'' 1 2 ''a|b'',
        \<lparr>image_cache =
           [''a|b'' \<mapsto> [(replicate 501 0, ''image/png'', ''http://img/1.jpg''),
                         (replicate 501 0, ''image/png'', ''http://img/1.jpg'')]],
         image_index = [''a|b'' \<mapsto> 1],
         current_image_url = [''a|b'' \<mapsto> ''http://img/1.jpg''],
         IMAGE_BLACKLIST = {}, blacklist_disk = Absent\<rparr>)"
proof -
  let ?s = "init_state Absent"
  have cands: "filtered_candidates duplicate_network [''a'', ''b''] ?s
                 = Inr [JStr ''http://img/1.jpg'', JStr ''http://img/1.jpg'']"
    by (simp add: filtered_candidates_def strip_a_b collect_duplicate init_state_def
        load_blacklist_def)
  have dup: "\<not> distinct (collect_urls duplicate_network ''a'' ''b'')"
    by (simp add: collect_duplicate)
  have miss: "key_of_args [''a'', ''b''] \<notin> dom (image_cache ?s)"
    by (simp add: init_state_def)
  have served: "handle_artistart duplicate_network [''a'', ''b''] ?s
     = (Image (replicate 501 0) ''image/png'' 1 2 ''a|b'',
        \<lparr>image_cache =
           [''a|b'' \<mapsto> [(replicate 501 0, ''image/png'', ''http://img/1.jpg''),
                         (replicate 501 0, ''image/png'', ''http://img/1.jpg'')]],
         image_index = [''a|b'' \<mapsto> 1],
         current_image_url = [''a|b'' \<mapsto> ''http://img/1.jpg''],
         IMAGE_BLACKLIST = {}, blacklist_disk = Absent\<rparr>)"
    unfolding artistart_miss [OF miss] cands
    by (simp add: download_duplicate key_a_b serve_def py_index_def init_state_def
        load_blacklist_def Let_def headers_encodable_def is_ascii_def
        del: download_all.simps)
  from cands dup served show ?thesis by (intro conjI)
qed

section \<open>Rotation where a header cannot be built\<close>

text \<open>
  C1 fails where a header cannot be built. The artist of the request is the word of the
  four Cyrillic letters U+043A U+0438 U+043D U+043E, sent over HTTP/1.1 to a fresh process;
  TheAudioDB names two artist images and both download. The first request stores the two
  records, records the first URL as last served and moves the cursor to 1; then
  \<^verbatim>\<open>send_header('X-Cache-Key', cache_key)\<close> raises UnicodeEncodeError and nothing is sent. The
  second request finds the list, records the second URL, moves the cursor back to 0 and
  fails in the same way: neither request reports a position.
\<close>

theorem rotation_reply_lost_outside_latin1:
  "handle_artistart kino_network [kino] (init_state Absent)
     = (Unhandled UnicodeEncodeError, kino_state 1 ''http://img/1.jpg'') \<and>
   handle_artistart kino_network [kino] (kino_state 1 ''http://img/1.jpg'')
     = (Unhandled UnicodeEncodeError, kino_state 0 ''http://img/2.jpg'') \<and>
   position (nth_reply [] kino_network [kino] (init_state Absent)) = None \<and>
   position (nth_reply [kino_network] kino_network [kino] (init_state Absent)) = None"
proof -
  let ?k = "kino @ ''|''"
  let ?imgs = "[example_image ''http://img/1.jpg'', example_image ''http://img/2.jpg'']"
  have strip_kino: "strip kino = kino"
    by (simp add: strip_def isspace_def kino_def)
  have lower_kino: "lower kino = kino"
    by (simp add: lower_def lower_char_def kino_def)
  have lower_nil: "lower [] = []"
    by (simp add: lower_def)
  have key: "key_of_args [kino] = ?k"
    by (simp add: key_of_args_def cache_key_of_def strip_kino lower_kino lower_nil)
  have bad: "\<not> headers_encodable kino_network ''image/jpeg'' ?k"
    by (simp add: headers_encodable_def kino_network_def kino_def is_ascii_def
        is_continuation_def)
  have collect: "collect_urls kino_network kino []
                   = [JStr ''http://img/1.jpg'', JStr ''http://img/2.jpg'']"
    by (simp add: collect_urls_def Let_def kino_network_def kino_def deezer_artist_def
        deezer_track_def audiodb_artist_def first_of_def fmlookup_of_list)
  have cands: "filtered_candidates kino_network [kino] (init_state Absent)
                 = Inr [JStr ''http://img/1.jpg'', JStr ''http://img/2.jpg'']"
    by (simp add: filtered_candidates_def strip_kino collect init_state_def load_blacklist_def)
  have got: "download_all kino_network 0 [JStr ''http://img/1.jpg'', JStr ''http://img/2.jpg'']
               = ?imgs"
    by (simp add: fetch_def kino_network_def example_image_def)
  have miss: "key_of_args [kino] \<notin> dom (image_cache (init_state Absent))"
    by (simp add: init_state_def)
  have first: "handle_artistart kino_network [kino] (init_state Absent)
                 = (Unhandled UnicodeEncodeError, kino_state 1 ''http://img/1.jpg'')"
    unfolding artistart_miss [OF miss] cands key
    using bad
    by (simp add: got serve_def py_index_def Let_def example_image_def kino_state_def
        init_state_def load_blacklist_def del: download_all.simps)
  have hit: "image_cache (kino_state 1 ''http://img/1.jpg'') (key_of_args [kino]) \<noteq> None"
    by (simp add: key kino_state_def)
  have ne: "[kino] \<noteq> []" by simp
  have step: "handle_artistart kino_network [kino] (kino_state 1 ''http://img/1.jpg'')
                = serve kino_network ?k (kino_state 1 ''http://img/1.jpg'')"
    using artistart_hit [OF ne hit, of kino_network] by (simp only: key)
  have second: "handle_artistart kino_network [kino] (kino_state 1 ''http://img/1.jpg'')
                  = (Unhandled UnicodeEncodeError, kino_state 0 ''http://img/2.jpg'')"
    unfolding step
    using bad
    by (simp add: serve_def py_index_def Let_def example_image_def kino_state_def)
  have p1: "position (nth_reply [] kino_network [kino] (init_state Absent)) = None"
    by (simp add: nth_reply_def first)
  have p2: "position (nth_reply [kino_network] kino_network [kino] (init_state Absent)) = None"
    by (simp add: nth_reply_def first second)
  from first second p1 p2 show ?thesis by (intro conjI)
qed

end
